theory Spec2Isabelle
  imports Main "HOL-Library.Sublist"
begin

section \<open>Values exchanged with the outside world\<close>

text \<open>
  The gateway is a single Node.js module, \<^verbatim>\<open>app.js\<close>. Its handlers run to completion one
  at a time on the event loop, so the program is modelled as a step function on a state:
  each HTTP request and each notification of a child process or of the file system is one
  event, and everything a handler does to the outside (writing to a response, spawning or
  signalling a process, console output, file-system calls) is appended to a log of effects.

  A child process object and a response object are identified by a number: a process by
  the order in which it was spawned, a response by the number the request carries.
\<close>

type_synonym pid = nat
type_synonym rid = nat

datatype json =
    JString string
  | JNumber int
  | JArray "json list"
  | JObject "(string \<times> json) list"

datatype effect =
    SetHeader rid string string
  | Write rid string
  | Respond rid nat json
  | Uncaught rid string
  | Mkdir string
  | Spawn pid string "string list"
  | Kill pid string
  | Unlink pid string
  | Readdir pid string
  | ConsoleLog "json list"
  | ConsoleError "json list"
  | ServerExit string

text \<open>
  \<open>Respond r c b\<close> is \<^verbatim>\<open>res.status(c).json(b)\<close> on response \<open>r\<close> (and \<^verbatim>\<open>res.send(b)\<close> of an
  object, which Express sends as JSON with the default status 200). The log records the
  call; the client of request \<open>r\<close> receives the first one made on \<open>r\<close>. \<open>Uncaught r m\<close> is an
  exception thrown synchronously inside the route handler of request \<open>r\<close>. \<open>Unlink p f\<close>
  and \<open>Readdir p d\<close> are the asynchronous \<^verbatim>\<open>fs.unlink\<close> and \<^verbatim>\<open>fs.readdir\<close> calls whose
  callbacks belong to the detection job of process \<open>p\<close>. \<open>ServerExit c\<close> is an exception
  with code \<open>c\<close> thrown inside a listener of a child process: nothing catches it there,
  and the server process ends.
\<close>

text \<open>An \<^verbatim>\<open>Error\<close> object, as far as the program looks at it: its message.\<close>

definition err_obj :: "string \<Rightarrow> json" where
  "err_obj m = JObject [(''message'', JString m)]"

text \<open>
  The library functions the module calls but does not define are parameters:
  \<^verbatim>\<open>path.resolve\<close>, \<^verbatim>\<open>path.join\<close> and the decoding \<^verbatim>\<open>Buffer.toString()\<close>.
\<close>

record env =
  path_resolve :: "string list \<Rightarrow> string"
  path_join :: "string list \<Rightarrow> string"
  toString :: "string \<Rightarrow> string"

text \<open>The outcome of \<^verbatim>\<open>if (!fs.existsSync(d)) fs.mkdirSync(d, {recursive: true})\<close>.\<close>

datatype fs_probe = DirExists | DirCreated | MkdirThrows string

fun ensure_dir :: "string \<Rightarrow> fs_probe \<Rightarrow> string + effect list" where
  "ensure_dir d DirExists = Inr []"
| "ensure_dir d DirCreated = Inr [Mkdir d]"
| "ensure_dir d (MkdirThrows m) = Inl m"

subsection \<open>Rendering an exit code in a template literal\<close>

definition digit_char :: "nat \<Rightarrow> char" where
  "digit_char d = char_of (48 + d)"

fun show_nat :: "nat \<Rightarrow> string" where
  "show_nat n = (if n < 10 then [digit_char n] else show_nat (n div 10) @ [digit_char (n mod 10)])"

declare show_nat.simps [simp del]

text \<open>The exit code of a \<^verbatim>\<open>close\<close> event is a number, or \<^verbatim>\<open>null\<close> when a signal ended the process.\<close>

fun show_code :: "int option \<Rightarrow> string" where
  "show_code None = ''null''"
| "show_code (Some c) = (if c < 0 then ''-'' @ show_nat (nat (- c)) else show_nat (nat c))"

section \<open>The program state\<close>

text \<open>
  The locals of one \<^verbatim>\<open>POST /detect\<close> request that its callbacks close over.
\<close>

record job =
  uniqueId :: string
  imagePath :: string
  outputFolder :: string
  errorMessage :: string
  resultMessage :: string

text \<open>
  The handlers registered on a child process close over the response of the request that
  spawned it and, for a detection job, over the job's locals.
\<close>

datatype closure = WebcamProc rid | DetectProc rid job

text \<open>
  \<open>image_path\<close> and \<open>pythonProcess\<close> are the two module-level variables (lines 13 and 14).
  \<open>children\<close> holds the closure of every process spawned so far, indexed by process number.
  \<open>live\<close> lists the processes that were spawned and whose \<^verbatim>\<open>close\<close> event has not been
  delivered yet; the program does not read it.
\<close>

record world =
  image_path :: "string list option"
  pythonProcess :: "pid option"
  children :: "closure list"
  live :: "pid list"
  effects :: "effect list"

definition init :: world where
  "init = \<lparr>image_path = None, pythonProcess = None, children = [], live = [], effects = []\<rparr>"

definition emit :: "effect list \<Rightarrow> world \<Rightarrow> world" where
  "emit es w = w\<lparr>effects := effects w @ es\<rparr>"

definition error_body :: "string \<Rightarrow> json" where
  "error_body m = JObject [(''error'', JString m)]"

definition error_details_body :: "string \<Rightarrow> string \<Rightarrow> json" where
  "error_details_body m d = JObject [(''error'', JString m), (''details'', JString d)]"

text \<open>
  The headers of a response are on the wire once it was answered or a chunk was written
  to it; \<^verbatim>\<open>res.status(c).json(b)\<close> on such a response raises \<^verbatim>\<open>ERR_HTTP_HEADERS_SENT\<close>.
  What the client of a request receives as its answer is the first one made on its
  response. The model raises the exception where a run that Node produces meets it: in
  the \<^verbatim>\<open>close\<close> listener of a detection job after a failed spawn (line 168). The other
  answers made in listeners and callbacks are recorded as calls.
\<close>

fun sends_headers :: "rid \<Rightarrow> effect \<Rightarrow> bool" where
  "sends_headers r (Respond q c b) = (q = r)"
| "sends_headers r (Write q d) = (q = r)"
| "sends_headers r _ = False"

definition headers_sent :: "rid \<Rightarrow> world \<Rightarrow> bool" where
  "headers_sent r w = list_ex (sends_headers r) (effects w)"


section \<open>The route \<^verbatim>\<open>GET /webcam\<close>\<close>

definition crlf :: string where
  "crlf = [CHR 0x0D, CHR 0x0A]"

definition webcam_args :: "env \<Rightarrow> string list" where
  "webcam_args e =
     [path_resolve e [''./yolov5/detect.py''],
      ''--weights'', ''./yolov5/yolov5s.pt'',
      ''--img'', ''640'',
      ''--conf'', ''0.4'',
      ''--source'', ''0'',
      ''--project'', ''./output'',
      ''--name'', ''webcam_results'']"

definition webcam_start :: "env \<Rightarrow> rid \<Rightarrow> fs_probe \<Rightarrow> world \<Rightarrow> world" where
  "webcam_start e r probe w =
     (case pythonProcess w of
        Some p \<Rightarrow> emit [Respond r 400 (error_body ''Webcam detection is already running.'')] w
      | None \<Rightarrow>
         (case ensure_dir ''./output'' probe of
            Inl m \<Rightarrow> emit [Uncaught r m] w
          | Inr made \<Rightarrow>
             (let p = length (children w) in
              w\<lparr>pythonProcess := Some p,
                children := children w @ [WebcamProc r],
                live := live w @ [p],
                effects := effects w @ made @
                  [Spawn p ''python3'' (webcam_args e),
                   SetHeader r ''Content-Type'' ''multipart/x-mixed-replace; boundary=frame'',
                   ConsoleLog [JString ''Webcam detection started...'']]\<rparr>)))"

definition webcam_stop :: "rid \<Rightarrow> world \<Rightarrow> world" where
  "webcam_stop r w =
     (case pythonProcess w of
        Some p \<Rightarrow>
          w\<lparr>pythonProcess := None,
            effects := effects w @
              [Kill p ''SIGTERM'',
               ConsoleLog [JString ''Webcam detection stopped.''],
               Respond r 200 (JObject [(''message'', JString ''Webcam detection stopped.'')])]\<rparr>
      | None \<Rightarrow> emit [Respond r 400 (error_body ''No webcam detection process is running.'')] w)"

text \<open>
  The query parameter \<open>action\<close> is \<open>None\<close> when it is absent or not a string; \<^verbatim>\<open>===\<close>
  then matches neither literal.
\<close>

definition webcam_get :: "env \<Rightarrow> rid \<Rightarrow> string option \<Rightarrow> fs_probe \<Rightarrow> world \<Rightarrow> world" where
  "webcam_get e r action probe w =
     (if action = Some ''start'' then webcam_start e r probe w
      else if action = Some ''stop'' then webcam_stop r w
      else emit [Respond r 400 (error_body ''Invalid action. Use ?action=start or ?action=stop'')] w)"

text \<open>The three handlers registered on the webcam process (lines 77 to 94).\<close>

definition webcam_on_stdout :: "rid \<Rightarrow> string \<Rightarrow> world \<Rightarrow> world" where
  "webcam_on_stdout r d w =
     emit [Write r (''--frame'' @ crlf),
           Write r (''Content-Type: image/jpeg'' @ crlf @ crlf),
           Write r d,
           Write r crlf] w"

definition finished_msg :: "int option \<Rightarrow> json" where
  "finished_msg code = JString (''Python process finished with exit code '' @ show_code code)"

definition webcam_on_close :: "int option \<Rightarrow> world \<Rightarrow> world" where
  "webcam_on_close code w =
     (emit [ConsoleLog [finished_msg code]] w)\<lparr>pythonProcess := None\<rparr>"

definition webcam_on_error :: "rid \<Rightarrow> string \<Rightarrow> world \<Rightarrow> world" where
  "webcam_on_error r m w =
     emit [ConsoleError [JString ''Python process error:'', err_obj m],
           Respond r 500 (error_details_body ''Failed to start Python process'' m)] w"

section \<open>The result filter\<close>

text \<open>
  \<^verbatim>\<open>path.extname\<close> is Node's own function; the model follows its POSIX implementation
  statement by statement: one backwards pass over the characters, recording where the
  last path component ends (\<open>endPos\<close>, the source's \<^verbatim>\<open>end\<close>), where its last dot is
  (\<open>startDot\<close>) and what was seen before that dot (\<open>preDotState\<close>). Positions are
  integers because the source uses \<open>-1\<close> for "not seen yet". A file name is a string of
  bytes; the slash and the dot are single bytes that occur in no multi-byte character, so
  the extension found is that of the source. (On Windows the backslash separates as well;
  the entries of a directory listing contain neither separator.)
\<close>

record ext_state =
  startDot :: int
  startPart :: int
  endPos :: int
  matchedSlash :: bool
  preDotState :: int

definition ext_init :: ext_state where
  "ext_init = \<lparr>startDot = - 1, startPart = 0, endPos = - 1, matchedSlash = True, preDotState = 0\<rparr>"

definition ext_char :: "char \<Rightarrow> int \<Rightarrow> ext_state \<Rightarrow> ext_state" where
  "ext_char code i st =
     (let st1 = (if endPos st = - 1 then st\<lparr>matchedSlash := False, endPos := i + 1\<rparr> else st)
      in if code = CHR ''.'' then
           (if startDot st1 = - 1 then st1\<lparr>startDot := i\<rparr>
            else if preDotState st1 \<noteq> 1 then st1\<lparr>preDotState := 1\<rparr>
            else st1)
         else if startDot st1 \<noteq> - 1 then st1\<lparr>preDotState := - 1\<rparr>
         else st1)"

text \<open>\<open>ext_loop path n st\<close> runs the iterations \<open>i = n - 1\<close> down to \<open>0\<close>.\<close>

fun ext_loop :: "string \<Rightarrow> nat \<Rightarrow> ext_state \<Rightarrow> ext_state" where
  "ext_loop path 0 st = st"
| "ext_loop path (Suc i) st =
     (if path ! i = CHR ''/'' then
        (if \<not> matchedSlash st then st\<lparr>startPart := int i + 1\<rparr>
         else ext_loop path i st)
      else ext_loop path i (ext_char (path ! i) (int i) st))"

definition extname :: "string \<Rightarrow> string" where
  "extname path =
     (let st = ext_loop path (length path) ext_init in
      if startDot st = - 1 \<or> endPos st = - 1 \<or> preDotState st = 0 \<or>
         (preDotState st = 1 \<and> startDot st = endPos st - 1 \<and> startDot st = startPart st + 1)
      then []
      else drop (nat (startDot st)) (take (nat (endPos st)) path))"

text \<open>
  \<^verbatim>\<open>toLowerCase\<close> on the bytes of a string: the letters A to Z move to a to z. No other
  character lower-cases to a letter of the four recognised extensions, so membership in
  the extension list is decided as in the source.
\<close>

definition lower_char :: "char \<Rightarrow> char" where
  "lower_char c = (let n = (of_char c :: nat) in if 65 \<le> n \<and> n \<le> 90 then char_of (n + 32) else c)"

definition toLowerCase :: "string \<Rightarrow> string" where
  "toLowerCase s = map lower_char s"

definition image_exts :: "string list" where
  "image_exts = [''.jpg'', ''.jpeg'', ''.png'', ''.bmp'']"

definition is_image :: "string \<Rightarrow> bool" where
  "is_image f = (toLowerCase (extname f) \<in> set image_exts)"

definition imageFiles :: "string list \<Rightarrow> string list" where
  "imageFiles files = filter is_image files"

definition imageUrls :: "string \<Rightarrow> string list \<Rightarrow> string list" where
  "imageUrls uid fs = map (\<lambda>f. ''http://localhost:3002/output/'' @ uid @ ''/results/'' @ f) fs"

section \<open>The route \<^verbatim>\<open>POST /detect\<close>\<close>

text \<open>
  What the handler can see of the request: the uploaded file that the upload middleware
  stored (absent when the form had none) and, although the handler never reads it, the
  host the client addressed.
\<close>

record upload =
  originalname :: string
  path :: string

record request =
  host :: string
  req_file :: "upload option"

definition detect_args :: "env \<Rightarrow> string \<Rightarrow> string \<Rightarrow> string list" where
  "detect_args e ip out =
     [path_resolve e [''./yolov5/detect.py''],
      ''--weights'', ''./yolov5/yolov5s.pt'',
      ''--img'', ''640'',
      ''--conf'', ''0.4'',
      ''--source'', ip,
      ''--project'', out,
      ''--name'', ''results'']"

text \<open>\<open>uid\<close> is \<^verbatim>\<open>crypto.randomBytes(16).toString('hex')\<close>, drawn by the environment.\<close>

definition detect_post :: "env \<Rightarrow> rid \<Rightarrow> request \<Rightarrow> string \<Rightarrow> fs_probe \<Rightarrow> world \<Rightarrow> world" where
  "detect_post e r req uid probe w =
     (case req_file req of
        None \<Rightarrow> emit [Respond r 400 (error_body ''No image uploaded'')] w
      | Some f \<Rightarrow>
         (let ip = path_resolve e [path f];
              out = path_resolve e [''./output'', uid]
          in case ensure_dir out probe of
               Inl m \<Rightarrow> emit [Uncaught r m] w
             | Inr made \<Rightarrow>
                (let p = length (children w) in
                 w\<lparr>children := children w @
                     [DetectProc r \<lparr>uniqueId = uid, imagePath = ip, outputFolder = out,
                                    errorMessage = [], resultMessage = []\<rparr>],
                   live := live w @ [p],
                   effects := effects w @ made @
                     [Spawn p ''python3.11'' (detect_args e ip out),
                      ConsoleLog [JString ''Python process started for object detection...'']]\<rparr>)))"

definition detect_on_stdout :: "env \<Rightarrow> pid \<Rightarrow> rid \<Rightarrow> job \<Rightarrow> string \<Rightarrow> world \<Rightarrow> world" where
  "detect_on_stdout e p r j d w =
     (emit [ConsoleLog [JString (toString e d)]] w)
       \<lparr>children := (children w)[p := DetectProc r (j\<lparr>resultMessage := resultMessage j @ toString e d\<rparr>)]\<rparr>"

definition detect_on_stderr :: "env \<Rightarrow> pid \<Rightarrow> rid \<Rightarrow> job \<Rightarrow> string \<Rightarrow> world \<Rightarrow> world" where
  "detect_on_stderr e p r j d w =
     (emit [ConsoleError [JString (toString e d)]] w)
       \<lparr>children := (children w)[p := DetectProc r (j\<lparr>errorMessage := errorMessage j @ toString e d\<rparr>)]\<rparr>"

definition detect_on_unlink :: "string option \<Rightarrow> world \<Rightarrow> world" where
  "detect_on_unlink err w =
     (case err of
        None \<Rightarrow> w
      | Some m \<Rightarrow> emit [ConsoleError [JString ''Failed to delete uploaded file:'', err_obj m]] w)"

text \<open>
  In the branch for a code other than 0 the response may have been answered already: after
  a failed spawn Node emits \<^verbatim>\<open>error\<close>, whose handler answers, and then \<^verbatim>\<open>close\<close> with a
  negative code. The call of line 168 then raises inside the \<^verbatim>\<open>close\<close> listener.
\<close>

definition detect_on_close :: "env \<Rightarrow> pid \<Rightarrow> rid \<Rightarrow> job \<Rightarrow> int option \<Rightarrow> world \<Rightarrow> world" where
  "detect_on_close e p r j code w =
     emit ([Unlink p (imagePath j), ConsoleLog [finished_msg code]] @
           (if code \<noteq> Some 0 then
              [ConsoleError [JString ''Python process error:'', JString (errorMessage j)],
               if headers_sent r w then ServerExit ''ERR_HTTP_HEADERS_SENT''
               else Respond r 500 (error_details_body ''Detection failed'' (errorMessage j))]
            else [Readdir p (path_join e [outputFolder j, ''results''])])) w"

text \<open>
  The body of \<^verbatim>\<open>res.send({status: 200, image: image_path})\<close>: the global is read when the
  object is built; a property whose value is \<^verbatim>\<open>undefined\<close> is left out of the JSON text.
\<close>

definition success_body :: "string list option \<Rightarrow> json" where
  "success_body ip =
     JObject ((''status'', JNumber 200) #
              (case ip of None \<Rightarrow> [] | Some urls \<Rightarrow> [(''image'', JArray (map JString urls))]))"

definition detect_on_readdir :: "rid \<Rightarrow> job \<Rightarrow> string + string list \<Rightarrow> world \<Rightarrow> world" where
  "detect_on_readdir r j res w =
     (case res of
        Inl m \<Rightarrow>
          emit [ConsoleError [JString ''Error reading result folder:'', err_obj m],
                Respond r 500 (error_body ''Failed to read result folder'')] w
      | Inr files \<Rightarrow>
         (let imgs = imageFiles files in
          if length imgs = 0 then
            emit [ConsoleError [JString ''No images found in result folder''],
                  Respond r 500 (error_body ''No images generated'')] w
          else
            (let urls = imageUrls (uniqueId j) imgs;
                 w1 = emit [ConsoleLog [JString ''Generated image URLs:'', JArray (map JString urls)]] w;
                 w2 = w1\<lparr>image_path := Some urls\<rparr>
             in emit [Respond r 200 (success_body (image_path w2))] w2)))"

definition detect_on_error :: "rid \<Rightarrow> string \<Rightarrow> world \<Rightarrow> world" where
  "detect_on_error r m w =
     emit [ConsoleError [JString ''Python process error:'', err_obj m],
           Respond r 500 (error_details_body ''Failed to start the Python process'' m)] w"

section \<open>The event loop\<close>

datatype event =
    GetWebcam rid "string option" fs_probe
  | PostDetect rid request string fs_probe
  | StdoutData pid string
  | StderrData pid string
  | CloseEv pid "int option"
  | ErrorEv pid string
  | UnlinkDone pid "string option"
  | ReaddirDone pid "string + string list"

definition closure_of :: "world \<Rightarrow> pid \<Rightarrow> closure option" where
  "closure_of w p = (if p < length (children w) then Some (children w ! p) else None)"

definition closed :: "pid \<Rightarrow> world \<Rightarrow> world" where
  "closed p w = w\<lparr>live := removeAll p (live w)\<rparr>"

text \<open>
  One turn of the event loop. A process event runs the handler that was registered on
  that process for it, if any: the webcam process has no \<^verbatim>\<open>stderr\<close> handler. A \<^verbatim>\<open>close\<close>
  event also ends the life of its process.
\<close>

fun step :: "env \<Rightarrow> world \<Rightarrow> event \<Rightarrow> world" where
  "step e w (GetWebcam r a probe) = webcam_get e r a probe w"
| "step e w (PostDetect r req uid probe) = detect_post e r req uid probe w"
| "step e w (StdoutData p d) =
     (case closure_of w p of
        None \<Rightarrow> w
      | Some (WebcamProc r) \<Rightarrow> webcam_on_stdout r d w
      | Some (DetectProc r j) \<Rightarrow> detect_on_stdout e p r j d w)"
| "step e w (StderrData p d) =
     (case closure_of w p of
        None \<Rightarrow> w
      | Some (WebcamProc r) \<Rightarrow> w
      | Some (DetectProc r j) \<Rightarrow> detect_on_stderr e p r j d w)"
| "step e w (CloseEv p code) =
     (case closure_of w p of
        None \<Rightarrow> w
      | Some (WebcamProc r) \<Rightarrow> webcam_on_close code (closed p w)
      | Some (DetectProc r j) \<Rightarrow> detect_on_close e p r j code (closed p w))"
| "step e w (ErrorEv p m) =
     (case closure_of w p of
        None \<Rightarrow> w
      | Some (WebcamProc r) \<Rightarrow> webcam_on_error r m w
      | Some (DetectProc r j) \<Rightarrow> detect_on_error r m w)"
| "step e w (UnlinkDone p err) =
     (case closure_of w p of
        Some (DetectProc r j) \<Rightarrow> detect_on_unlink err w
      | _ \<Rightarrow> w)"
| "step e w (ReaddirDone p res) =
     (case closure_of w p of
        Some (DetectProc r j) \<Rightarrow> detect_on_readdir r j res w
      | _ \<Rightarrow> w)"

fun run :: "env \<Rightarrow> world \<Rightarrow> event list \<Rightarrow> world" where
  "run e w [] = w"
| "run e w (x # xs) = run e (step e w x) xs"

text \<open>
  An event of a process can only arrive while the process is live, and a file-system
  callback only after its call was made.
\<close>

fun is_unlink_of :: "pid \<Rightarrow> effect \<Rightarrow> bool" where
  "is_unlink_of p (Unlink q f) = (q = p)"
| "is_unlink_of p _ = False"

fun is_readdir_of :: "pid \<Rightarrow> effect \<Rightarrow> bool" where
  "is_readdir_of p (Readdir q d) = (q = p)"
| "is_readdir_of p _ = False"

fun enabled :: "world \<Rightarrow> event \<Rightarrow> bool" where
  "enabled w (GetWebcam r a probe) = True"
| "enabled w (PostDetect r req uid probe) = True"
| "enabled w (StdoutData p d) = (p \<in> set (live w))"
| "enabled w (StderrData p d) = (p \<in> set (live w))"
| "enabled w (CloseEv p code) = (p \<in> set (live w))"
| "enabled w (ErrorEv p m) = (p \<in> set (live w))"
| "enabled w (UnlinkDone p err) = list_ex (is_unlink_of p) (effects w)"
| "enabled w (ReaddirDone p res) = list_ex (is_readdir_of p) (effects w)"

text \<open>Once the server process has ended, it handles no further event.\<close>

fun is_exit :: "effect \<Rightarrow> bool" where
  "is_exit (ServerExit c) = True"
| "is_exit _ = False"

definition exited :: "world \<Rightarrow> bool" where
  "exited w = list_ex is_exit (effects w)"

fun feasible :: "env \<Rightarrow> world \<Rightarrow> event list \<Rightarrow> bool" where
  "feasible e w [] = True"
| "feasible e w (x # xs) = (\<not> exited w \<and> enabled w x \<and> feasible e (step e w x) xs)"

text \<open>A sample environment on which concrete runs are evaluated.\<close>

definition sample_env :: env where
  "sample_env = \<lparr>path_resolve = (\<lambda>segs. foldl (\<lambda>a b. a @ ''/'' @ (if take 2 b = ''./'' then drop 2 b else b))
                                              ''/srv/app'' segs),
                 path_join = (\<lambda>segs. foldr (\<lambda>a b. if b = [] then a else a @ ''/'' @ b) segs []),
                 toString = (\<lambda>b. b)\<rparr>"

subsection \<open>Decoding a chunk\<close>

text \<open>
  \<^verbatim>\<open>Buffer.toString()\<close> is Node's: it decodes the bytes of the chunk as UTF-8, and every
  ill-formed piece (a byte that cannot start a character, or the longest prefix of a
  character that the next byte fails to continue, the end of the chunk included) becomes
  one replacement character U+FFFD. The decoder below is the standard one: the lead byte
  fixes how many continuation bytes are needed and the range of the first of them. Text
  is kept as its UTF-8 bytes, so a well-formed character decodes to its own bytes and
  U+FFFD is the three bytes \<^verbatim>\<open>EF BF BD\<close>.
\<close>

datatype lead = Single | Lead nat nat nat | Invalid






text \<open>What a handler appended to the log: the effects of \<open>w'\<close> beyond those of \<open>w\<close>.\<close>

definition new_effects :: "world \<Rightarrow> world \<Rightarrow> effect list" where
  "new_effects w w' = drop (length (effects w)) (effects w')"


text \<open>The decoded \<^verbatim>\<open>stderr\<close> chunks of process \<open>p\<close> among a sequence of events, in order.\<close>

fun stderr_chunks :: "env \<Rightarrow> pid \<Rightarrow> event list \<Rightarrow> string list" where
  "stderr_chunks e p [] = []"
| "stderr_chunks e p (StderrData q d # es) =
     (if q = p then toString e d # stderr_chunks e p es else stderr_chunks e p es)"
| "stderr_chunks e p (_ # es) = stderr_chunks e p es"

fun stdout_chunks :: "env \<Rightarrow> pid \<Rightarrow> event list \<Rightarrow> string list" where
  "stdout_chunks e p [] = []"
| "stdout_chunks e p (StdoutData q d # es) =
     (if q = p then toString e d # stdout_chunks e p es else stdout_chunks e p es)"
| "stdout_chunks e p (_ # es) = stdout_chunks e p es"

fun is_kill :: "effect \<Rightarrow> bool" where
  "is_kill (Kill p s) = True"
| "is_kill _ = False"

text \<open>
  A proof device for the backwards pass of \<open>extname\<close>: the first character met that is
  not a slash fixes \<open>endPos\<close>.
\<close>

definition mark_end :: "ext_state \<Rightarrow> int \<Rightarrow> ext_state" where
  "mark_end st k = (if endPos st = - 1 then st\<lparr>matchedSlash := False, endPos := k\<rparr> else st)"

section \<open>Concrete runs\<close>

definition start_request :: "rid \<Rightarrow> event" where
  "start_request r = GetWebcam r (Some ''start'') DirExists"

definition stop_request :: "rid \<Rightarrow> event" where
  "stop_request r = GetWebcam r (Some ''stop'') DirExists"

definition webcam_running :: world where
  "webcam_running = run sample_env init [start_request 0]"

definition sample_upload :: upload where
  "sample_upload = \<lparr>originalname = ''street.jpg'', path = ''uploads/image-1700000000000.jpg''\<rparr>"

definition sample_request :: request where
  "sample_request = \<lparr>host = ''192.168.1.20:3002'', req_file = Some sample_upload\<rparr>"

definition uid_a :: string where
  "uid_a = ''00112233445566778899aabbccddeeff''"

definition uid_b :: string where
  "uid_b = ''ffeeddccbbaa99887766554433221100''"

definition spawn_failed :: world where
  "spawn_failed = step sample_env webcam_running (ErrorEv 0 ''spawn python3 ENOENT'')"

definition restart_race :: "event list" where
  "restart_race = [start_request 0, stop_request 1, start_request 2, CloseEv 0 None, start_request 3]"

definition job_a :: job where
  "job_a = \<lparr>uniqueId = uid_a, imagePath = ''/srv/app/uploads/image-1700000000000.jpg'',
            outputFolder = ''/srv/app/output/00112233445566778899aabbccddeeff'',
            errorMessage = [], resultMessage = []\<rparr>"


definition one_job :: world where
  "one_job = run sample_env init [PostDetect 0 sample_request uid_a DirCreated]"

definition one_job_closed :: world where
  "one_job_closed = step sample_env one_job (CloseEv 0 (Some 0))"




section \<open>Basic facts about the log and the closures\<close>

lemma effects_emit [simp]: "effects (emit es w) = effects w @ es"
  and pythonProcess_emit [simp]: "pythonProcess (emit es w) = pythonProcess w"
  and image_path_emit [simp]: "image_path (emit es w) = image_path w"
  and children_emit [simp]: "children (emit es w) = children w"
  and live_emit [simp]: "live (emit es w) = live w"
  by (simp_all add: emit_def)

lemma new_effects_append [simp]:
  "effects w' = effects w @ es \<Longrightarrow> new_effects w w' = es"
  by (simp add: new_effects_def)

lemma closed_fields [simp]:
  "effects (closed p w) = effects w" "pythonProcess (closed p w) = pythonProcess w"
  "image_path (closed p w) = image_path w" "children (closed p w) = children w"
  "live (closed p w) = removeAll p (live w)"
  by (simp_all add: closed_def)

lemma headers_sent_simps [simp]:
  "headers_sent r (closed p w) = headers_sent r w"
  "headers_sent r (w\<lparr>image_path := x\<rparr>) = headers_sent r w"
  by (simp_all add: headers_sent_def)


lemmas handler_defs =
  webcam_get_def webcam_start_def webcam_stop_def webcam_on_stdout_def webcam_on_close_def
  webcam_on_error_def detect_post_def detect_on_stdout_def detect_on_stderr_def
  detect_on_unlink_def detect_on_close_def detect_on_readdir_def detect_on_error_def

lemmas sample_defs =
  sample_env_def sample_request_def sample_upload_def uid_a_def uid_b_def init_def
  start_request_def stop_request_def

lemma chunks_Cons:
  "stderr_chunks e p (ev # es) = stderr_chunks e p [ev] @ stderr_chunks e p es"
  "stdout_chunks e p (ev # es) = stdout_chunks e p [ev] @ stdout_chunks e p es"
  by (cases ev; simp)+

text \<open>
  Whatever event is handled, the closure of a detection job keeps its response and its
  locals, except that its own output chunks are appended to the two accumulators.
\<close>

lemma step_closure:
  assumes "closure_of w p = Some (DetectProc r j)"
  shows "closure_of (step e w ev) p =
           Some (DetectProc r (j\<lparr>errorMessage := errorMessage j @ concat (stderr_chunks e p [ev]),
                                  resultMessage := resultMessage j @ concat (stdout_chunks e p [ev])\<rparr>))"
proof (cases ev)
  case (GetWebcam r' a probe)
  with assms show ?thesis
    by (auto simp: handler_defs closure_of_def nth_append Let_def
             split: option.splits sum.splits if_splits)
next
  case (PostDetect r' req uid probe)
  with assms show ?thesis
    by (auto simp: handler_defs closure_of_def nth_append Let_def
             split: option.splits sum.splits if_splits)
next
  case (StdoutData q d)
  with assms show ?thesis
    by (auto simp: handler_defs closure_of_def nth_list_update
             split: option.splits closure.splits if_splits)
next
  case (StderrData q d)
  with assms show ?thesis
    by (auto simp: handler_defs closure_of_def nth_list_update
             split: option.splits closure.splits if_splits)
next
  case (CloseEv q code)
  with assms show ?thesis
    by (auto simp: handler_defs closure_of_def split: option.splits closure.splits if_splits)
next
  case (ErrorEv q m)
  with assms show ?thesis
    by (auto simp: handler_defs closure_of_def split: option.splits closure.splits if_splits)
next
  case (UnlinkDone q err)
  with assms show ?thesis
    by (auto simp: handler_defs closure_of_def split: option.splits closure.splits if_splits)
next
  case (ReaddirDone q res)
  with assms show ?thesis
    by (auto simp: handler_defs closure_of_def Let_def
             split: option.splits closure.splits if_splits sum.splits)
qed

lemma run_closure:
  "closure_of w p = Some (DetectProc r j) \<Longrightarrow>
   closure_of (run e w es) p =
     Some (DetectProc r (j\<lparr>errorMessage := errorMessage j @ concat (stderr_chunks e p es),
                            resultMessage := resultMessage j @ concat (stdout_chunks e p es)\<rparr>))"
proof (induction es arbitrary: w j)
  case Nil
  then show ?case by simp
next
  case (Cons ev es)
  from step_closure [OF Cons.prems, where e = e and ev = ev] Cons.IH
  show ?case
    by (simp add: chunks_Cons [of e p ev es])
qed



lemma step_effects_frame:
  assumes "\<And>r. list_ex (sends_headers r) x = list_ex (sends_headers r) (effects w)"
  shows "step e (w\<lparr>effects := x\<rparr>) ev = (step e w ev)\<lparr>effects := x @ new_effects w (step e w ev)\<rparr>"
proof (cases ev)
  case (GetWebcam r a probe)
  then show ?thesis
    by (auto simp: handler_defs emit_def new_effects_def Let_def split: option.splits sum.splits)
next
  case (PostDetect r req uid probe)
  then show ?thesis
    by (auto simp: handler_defs emit_def new_effects_def Let_def split: option.splits sum.splits)
next
  case (StdoutData p d)
  then show ?thesis
    by (auto simp: handler_defs emit_def new_effects_def closure_of_def
             split: option.splits closure.splits)
next
  case (StderrData p d)
  then show ?thesis
    by (auto simp: handler_defs emit_def new_effects_def closure_of_def
             split: option.splits closure.splits)
next
  case (CloseEv p code)
  with assms show ?thesis
    by (auto simp: handler_defs emit_def new_effects_def closure_of_def closed_def headers_sent_def
             split: option.splits closure.splits)
next
  case (ErrorEv p m)
  then show ?thesis
    by (auto simp: handler_defs emit_def new_effects_def closure_of_def
             split: option.splits closure.splits)
next
  case (UnlinkDone p err)
  then show ?thesis
    by (auto simp: handler_defs emit_def new_effects_def closure_of_def
             split: option.splits closure.splits)
next
  case (ReaddirDone p res)
  then show ?thesis
    by (auto simp: handler_defs emit_def new_effects_def closure_of_def Let_def
             split: option.splits closure.splits sum.splits)
qed

lemma readdir_step:
  assumes "closure_of w p = Some (DetectProc r j)"
  shows "step e w (ReaddirDone p res) = detect_on_readdir r j res w"
  using assms by simp

lemma readdir_success:
  assumes "imageFiles files \<noteq> []"
  shows "detect_on_readdir r j (Inr files) w =
           w\<lparr>image_path := Some (imageUrls (uniqueId j) (imageFiles files)),
             effects := effects w @
               [ConsoleLog [JString ''Generated image URLs:'',
                            JArray (map JString (imageUrls (uniqueId j) (imageFiles files)))],
                Respond r 200 (JObject [(''status'', JNumber 200),
                   (''image'', JArray (map JString (imageUrls (uniqueId j) (imageFiles files))))])]\<rparr>"
  using assms by (simp add: detect_on_readdir_def Let_def emit_def success_body_def)

lemma readdir_empty:
  assumes "imageFiles files = []"
  shows "detect_on_readdir r j (Inr files) w =
           w\<lparr>effects := effects w @
               [ConsoleError [JString ''No images found in result folder''],
                Respond r 500 (JObject [(''error'', JString ''No images generated'')])]\<rparr>"
  using assms by (simp add: detect_on_readdir_def Let_def emit_def error_body_def)

lemma close_zero:
  assumes "closure_of w p = Some (DetectProc r j)"
  shows "new_effects w (step e w (CloseEv p (Some 0))) =
           [Unlink p (imagePath j), ConsoleLog [finished_msg (Some 0)],
            Readdir p (path_join e [outputFolder j, ''results''])]"
  using assms by (simp add: detect_on_close_def)

lemma unlink_done_only_logs:
  assumes "closure_of w p = Some (DetectProc r j)"
  shows "step e w (UnlinkDone p err) =
           w\<lparr>effects := effects w @
               (case err of
                  None \<Rightarrow> []
                | Some m \<Rightarrow> [ConsoleError [JString ''Failed to delete uploaded file:'',
                                            JObject [(''message'', JString m)]]])\<rparr>"
  using assms by (simp add: detect_on_unlink_def emit_def err_obj_def split: option.splits)

section \<open>Facts about the webcam process\<close>

lemma run_append: "run e w (xs @ ys) = run e (run e w xs) ys"
  by (induction xs arbitrary: w) simp_all

lemma step_webcam_closure:
  assumes "closure_of w p = Some (WebcamProc r)"
  shows "closure_of (step e w ev) p = Some (WebcamProc r)"
proof (cases ev)
  case (GetWebcam r' a probe)
  with assms show ?thesis
    by (auto simp: handler_defs closure_of_def nth_append Let_def
             split: option.splits sum.splits if_splits)
next
  case (PostDetect r' req uid probe)
  with assms show ?thesis
    by (auto simp: handler_defs closure_of_def nth_append Let_def
             split: option.splits sum.splits if_splits)
next
  case (StdoutData q d)
  with assms show ?thesis
    by (auto simp: handler_defs closure_of_def nth_list_update
             split: option.splits closure.splits if_splits)
next
  case (StderrData q d)
  with assms show ?thesis
    by (auto simp: handler_defs closure_of_def nth_list_update
             split: option.splits closure.splits if_splits)
next
  case (CloseEv q code)
  with assms show ?thesis
    by (auto simp: handler_defs closure_of_def split: option.splits closure.splits if_splits)
next
  case (ErrorEv q m)
  with assms show ?thesis
    by (auto simp: handler_defs closure_of_def split: option.splits closure.splits if_splits)
next
  case (UnlinkDone q err)
  with assms show ?thesis
    by (auto simp: handler_defs closure_of_def split: option.splits closure.splits if_splits)
next
  case (ReaddirDone q res)
  with assms show ?thesis
    by (auto simp: handler_defs closure_of_def Let_def
             split: option.splits closure.splits if_splits sum.splits)
qed

lemma run_webcam_closure:
  "closure_of w p = Some (WebcamProc r) \<Longrightarrow> closure_of (run e w es) p = Some (WebcamProc r)"
  by (induction es arbitrary: w) (simp_all add: step_webcam_closure)

lemma webcam_close_clears:
  assumes "closure_of w p = Some (WebcamProc r)"
  shows "pythonProcess (step e w (CloseEv p code)) = None"
    and "children (step e w (CloseEv p code)) = children w"
    and "new_effects w (step e w (CloseEv p code)) = [ConsoleLog [finished_msg code]]"
  using assms by (simp_all add: webcam_on_close_def)

lemma webcam_start_idle:
  assumes "pythonProcess w = None"
  shows "pythonProcess (step e w (GetWebcam r (Some ''start'') DirExists)) = Some (length (children w))"
    and "new_effects w (step e w (GetWebcam r (Some ''start'') DirExists)) =
           [Spawn (length (children w)) ''python3'' (webcam_args e),
            SetHeader r ''Content-Type'' ''multipart/x-mixed-replace; boundary=frame'',
            ConsoleLog [JString ''Webcam detection started...'']]"
  using assms by (simp_all add: webcam_get_def webcam_start_def Let_def)

section \<open>The extension of a plain file name\<close>

text \<open>
  The entries of a directory listing contain no slash. For such a name the backwards pass
  finds the last dot, and \<open>extname\<close> is the part of the name from that dot on, unless
  the dot is the first character or the name is \<^verbatim>\<open>..\<close>; a name without a dot has no
  extension.
\<close>

lemma ext_char_plain:
  assumes "c \<noteq> CHR ''.''" and "startDot st = - 1"
  shows "ext_char c i st = mark_end st (i + 1)"
  using assms by (simp add: ext_char_def mark_end_def Let_def)

lemma ext_char_first_dot:
  assumes "startDot st = - 1"
  shows "ext_char (CHR ''.'') i st = (mark_end st (i + 1))\<lparr>startDot := i\<rparr>"
  using assms by (simp add: ext_char_def mark_end_def Let_def)

lemma ext_char_before_dot:
  assumes "startDot st \<noteq> - 1" and "endPos st \<noteq> - 1"
  shows "ext_char c i st = st\<lparr>preDotState := (if c = CHR ''.'' then 1 else - 1)\<rparr>"
  using assms by (simp add: ext_char_def Let_def)

lemma mark_end_twice:
  "0 \<le> k \<Longrightarrow> mark_end (mark_end st k) k' = mark_end st k"
  by (simp add: mark_end_def)

lemma mark_end_startDot [simp]: "startDot (mark_end st k) = startDot st"
  by (simp add: mark_end_def)

lemma ext_loop_tail:
  assumes "CHR ''/'' \<notin> set zs" and "CHR ''.'' \<notin> set zs" and "startDot st = - 1"
  shows "ext_loop (xs @ zs @ ys) (length xs + length zs) st =
           ext_loop (xs @ zs @ ys) (length xs)
             (if zs = [] then st else mark_end st (int (length xs + length zs)))"
  using assms
proof (induction zs arbitrary: st ys rule: rev_induct)
  case Nil
  then show ?case by simp
next
  case (snoc c zs)
  have nth: "(xs @ (zs @ [c]) @ ys) ! (length xs + length zs) = c"
    by (simp add: nth_append)
  have c: "c \<noteq> CHR ''/''" "c \<noteq> CHR ''.''"
    using snoc.prems by auto
  let ?st = "mark_end st (int (length xs + length zs) + 1)"
  have "ext_loop (xs @ (zs @ [c]) @ ys) (length xs + length (zs @ [c])) st =
          ext_loop (xs @ (zs @ [c]) @ ys) (length xs + length zs) ?st"
    using nth c ext_char_plain [OF c(2) snoc.prems(3)] by simp
  also have "\<dots> = ext_loop (xs @ zs @ c # ys) (length xs + length zs) ?st"
    by simp
  also have "\<dots> = ext_loop (xs @ zs @ c # ys) (length xs)
                      (if zs = [] then ?st else mark_end ?st (int (length xs + length zs)))"
    using snoc.prems by (intro snoc.IH) simp_all
  also have "(if zs = [] then ?st else mark_end ?st (int (length xs + length zs))) = ?st"
    by (simp add: mark_end_twice)
  finally show ?case
    by (simp add: add.commute)
qed

lemma ext_loop_stem:
  assumes "CHR ''/'' \<notin> set xs" and "startDot st \<noteq> - 1" and "endPos st \<noteq> - 1"
  shows "ext_loop (xs @ ys) (length xs) st =
           st\<lparr>preDotState := (case xs of [] \<Rightarrow> preDotState st
                                | c # _ \<Rightarrow> if c = CHR ''.'' then 1 else - 1)\<rparr>"
  using assms
proof (induction xs arbitrary: st ys rule: rev_induct)
  case Nil
  then show ?case by simp
next
  case (snoc c xs)
  have c: "c \<noteq> CHR ''/''"
    using snoc.prems by auto
  let ?st = "st\<lparr>preDotState := (if c = CHR ''.'' then 1 else - 1)\<rparr>"
  have "ext_loop ((xs @ [c]) @ ys) (length (xs @ [c])) st = ext_loop ((xs @ [c]) @ ys) (length xs) ?st"
    using c ext_char_before_dot [OF snoc.prems(2,3)] by (simp add: nth_append)
  also have "\<dots> = ext_loop (xs @ c # ys) (length xs) ?st"
    by simp
  also have "\<dots> = ?st\<lparr>preDotState := (case xs of [] \<Rightarrow> preDotState ?st
                                | d # _ \<Rightarrow> if d = CHR ''.'' then 1 else - 1)\<rparr>"
    using snoc.prems by (intro snoc.IH) simp_all
  finally show ?case
    by (cases xs) simp_all
qed

lemma extname_no_dot:
  assumes "CHR ''/'' \<notin> set f" and "CHR ''.'' \<notin> set f"
  shows "extname f = []"
proof -
  have "ext_loop ([] @ f @ []) (length ([]::string) + length f) ext_init =
          ext_loop ([] @ f @ []) (length ([]::string))
            (if f = [] then ext_init else mark_end ext_init (int (length ([]::string) + length f)))"
    by (rule ext_loop_tail [OF assms]) (simp add: ext_init_def)
  then have "startDot (ext_loop f (length f) ext_init) = - 1"
    by (simp add: ext_init_def)
  then show ?thesis
    by (simp add: extname_def Let_def)
qed

lemma extname_last_dot:
  assumes "CHR ''/'' \<notin> set a" and "CHR ''/'' \<notin> set b" and "CHR ''.'' \<notin> set b"
  shows "extname (a @ CHR ''.'' # b) =
           (if a = [] \<or> (a = ''.'' \<and> b = []) then [] else CHR ''.'' # b)"
proof -
  let ?f = "a @ CHR ''.'' # b"
  let ?n = "int (length a) + 1 + int (length b)"
  let ?S2 = "ext_init\<lparr>matchedSlash := False, endPos := ?n, startDot := int (length a)\<rparr>"
  have "ext_loop ((a @ ''.'') @ b @ []) (length (a @ ''.'') + length b) ext_init =
          ext_loop ((a @ ''.'') @ b @ []) (length (a @ ''.''))
            (if b = [] then ext_init else mark_end ext_init (int (length (a @ ''.'') + length b)))"
    by (rule ext_loop_tail [OF assms(2,3)]) (simp add: ext_init_def)
  then have "ext_loop ?f (length ?f) ext_init =
          ext_loop ?f (Suc (length a))
            (if b = [] then ext_init else mark_end ext_init ?n)"
    by (simp add: add.commute add.left_commute)
  also have "\<dots> = ext_loop ?f (length a) ?S2"
    by (simp add: nth_append ext_char_def mark_end_def ext_init_def Let_def)
  also have "\<dots> = ?S2\<lparr>preDotState := (case a of [] \<Rightarrow> preDotState ?S2
                                | c # _ \<Rightarrow> if c = CHR ''.'' then 1 else - 1)\<rparr>"
    by (rule ext_loop_stem [OF assms(1)]) simp_all
  also have "(case a of [] \<Rightarrow> preDotState ?S2 | c # _ \<Rightarrow> if c = CHR ''.'' then 1 else - 1) =
             (case a of [] \<Rightarrow> 0 | c # _ \<Rightarrow> if c = CHR ''.'' then (1::int) else - 1)"
    by (simp add: ext_init_def split: list.splits)
  finally have loop: "ext_loop ?f (length ?f) ext_init =
      ?S2\<lparr>preDotState := (case a of [] \<Rightarrow> 0 | c # _ \<Rightarrow> if c = CHR ''.'' then 1 else - 1)\<rparr>" .
  show ?thesis
  proof (cases a)
    case Nil
    with loop show ?thesis
      by (simp add: extname_def Let_def ext_init_def)
  next
    case (Cons c cs)
    with loop show ?thesis
      by (auto simp: extname_def Let_def ext_init_def nat_add_distrib)
  qed
qed

lemma lower_char_dot: "lower_char c = CHR ''.'' \<longleftrightarrow> c = CHR ''.''"
proof
  assume a: "lower_char c = CHR ''.''"
  show "c = CHR ''.''"
  proof (cases "65 \<le> (of_char c :: nat) \<and> (of_char c :: nat) \<le> 90")
    case True
    then have "(of_char (lower_char c) :: nat) = (of_char c + 32) mod 256"
      by (simp add: lower_char_def Let_def)
    with a True show ?thesis by simp
  next
    case False
    with a show ?thesis by (simp add: lower_char_def Let_def)
  qed
next
  assume "c = CHR ''.''"
  then show "lower_char c = CHR ''.''" by (simp add: lower_char_def)
qed

lemma lower_char_dot_sym: "CHR ''.'' = lower_char c \<longleftrightarrow> c = CHR ''.''"
  using lower_char_dot [of c] by auto

lemma toLowerCase_dot: "CHR ''.'' \<in> set (toLowerCase s) \<longleftrightarrow> CHR ''.'' \<in> set s"
  by (induction s) (auto simp: toLowerCase_def lower_char_dot lower_char_dot_sym)

lemma toLowerCase_simps [simp]:
  "toLowerCase [] = []" "toLowerCase (c # s) = lower_char c # toLowerCase s"
  by (simp_all add: toLowerCase_def)

lemma lower_ext_shape:
  assumes "toLowerCase ext \<in> set image_exts"
  shows "\<exists>e. ext = CHR ''.'' # e \<and> e \<noteq> [] \<and> CHR ''.'' \<notin> set e"
proof (cases ext)
  case Nil
  with assms show ?thesis by (simp add: image_exts_def)
next
  case (Cons c e)
  with assms have c: "lower_char c = CHR ''.''"
    and e: "toLowerCase e \<in> {''jpg'', ''jpeg'', ''png'', ''bmp''}"
    by (auto simp: image_exts_def)
  from e have "CHR ''.'' \<notin> set (toLowerCase e)" and "toLowerCase e \<noteq> []"
    by auto
  then have "CHR ''.'' \<notin> set e" and "e \<noteq> []"
    by (auto simp: toLowerCase_dot)
  with c Cons show ?thesis
    by (simp add: lower_char_dot)
qed

lemma is_image_iff:
  assumes "CHR ''/'' \<notin> set f"
  shows "is_image f \<longleftrightarrow>
           (\<exists>stem ext. f = stem @ ext \<and> stem \<noteq> [] \<and> toLowerCase ext \<in> set image_exts)"
proof
  assume img: "is_image f"
  then have ne: "extname f \<noteq> []"
    by (auto simp: is_image_def image_exts_def)
  with assms extname_no_dot have "CHR ''.'' \<in> set f"
    by blast
  then obtain a b where f: "f = a @ CHR ''.'' # b" and b: "CHR ''.'' \<notin> set b"
    by (blast dest: split_list_last)
  with assms have "extname f = (if a = [] \<or> (a = ''.'' \<and> b = []) then [] else CHR ''.'' # b)"
    by (simp add: extname_last_dot)
  with ne have "a \<noteq> []" and "extname f = CHR ''.'' # b"
    by (auto split: if_splits)
  with f img show "\<exists>stem ext. f = stem @ ext \<and> stem \<noteq> [] \<and> toLowerCase ext \<in> set image_exts"
    unfolding is_image_def by metis
next
  assume "\<exists>stem ext. f = stem @ ext \<and> stem \<noteq> [] \<and> toLowerCase ext \<in> set image_exts"
  then obtain stem ext where f: "f = stem @ ext" and stem: "stem \<noteq> []"
    and ext: "toLowerCase ext \<in> set image_exts"
    by blast
  from lower_ext_shape [OF ext] obtain e where e: "ext = CHR ''.'' # e" "e \<noteq> []" "CHR ''.'' \<notin> set e"
    by blast
  with assms f have "extname f = (if stem = [] \<or> (stem = ''.'' \<and> e = []) then [] else CHR ''.'' # e)"
    by (simp add: extname_last_dot)
  with stem e have "extname f = ext"
    by simp
  with ext show "is_image f"
    by (simp add: is_image_def)
qed

section \<open>The concrete runs, evaluated\<close>

lemma webcam_running_eq:
  "webcam_running =
     \<lparr>image_path = None, pythonProcess = Some 0, children = [WebcamProc 0], live = [0],
      effects = [Spawn 0 ''python3'' (webcam_args sample_env),
                 SetHeader 0 ''Content-Type'' ''multipart/x-mixed-replace; boundary=frame'',
                 ConsoleLog [JString ''Webcam detection started...'']]\<rparr>"
  by (simp add: webcam_running_def init_def start_request_def webcam_get_def webcam_start_def)

lemma restart_race_run:
  "run sample_env init restart_race =
     \<lparr>image_path = None, pythonProcess = Some 2,
      children = [WebcamProc 0, WebcamProc 2, WebcamProc 3], live = [1, 2],
      effects =
        [Spawn 0 ''python3'' (webcam_args sample_env),
         SetHeader 0 ''Content-Type'' ''multipart/x-mixed-replace; boundary=frame'',
         ConsoleLog [JString ''Webcam detection started...''],
         Kill 0 ''SIGTERM'',
         ConsoleLog [JString ''Webcam detection stopped.''],
         Respond 1 200 (JObject [(''message'', JString ''Webcam detection stopped.'')]),
         Spawn 1 ''python3'' (webcam_args sample_env),
         SetHeader 2 ''Content-Type'' ''multipart/x-mixed-replace; boundary=frame'',
         ConsoleLog [JString ''Webcam detection started...''],
         ConsoleLog [JString ''Python process finished with exit code null''],
         Spawn 2 ''python3'' (webcam_args sample_env),
         SetHeader 3 ''Content-Type'' ''multipart/x-mixed-replace; boundary=frame'',
         ConsoleLog [JString ''Webcam detection started...'']]\<rparr>"
  by (simp add: restart_race_def init_def start_request_def stop_request_def webcam_get_def
                webcam_start_def webcam_stop_def closure_of_def webcam_on_close_def closed_def
                emit_def finished_msg_def)

lemma one_job_closure: "closure_of one_job 0 = Some (DetectProc 0 job_a)"
  by (simp add: one_job_def job_a_def sample_defs detect_post_def closure_of_def Let_def)

lemma one_job_closed_closure: "closure_of one_job_closed 0 = Some (DetectProc 0 job_a)"
  using step_closure [OF one_job_closure, of sample_env "CloseEv 0 (Some 0)"]
  by (simp add: one_job_closed_def job_a_def)



lemma sample_listing:
  "imageFiles [''street.jpg''] = [''street.jpg'']"
  "imageFiles [''cars.png''] = [''cars.png'']"
  "imageFiles [''labels.txt''] = []"
  "imageFiles [''street.jpg'', ''labels'', ''crops.PNG'', ''.bmp''] = [''street.jpg'', ''crops.PNG'']"
  by code_simp+

lemma sample_filter:
  "filter is_image [''street.jpg'', ''labels'', ''crops.PNG'', ''.bmp''] = [''street.jpg'', ''crops.PNG'']"
  by code_simp


lemma one_job_feasible:
  "feasible sample_env init
     [PostDetect 0 sample_request uid_a DirCreated, CloseEv 0 (Some 0),
      ReaddirDone 0 (Inr [''labels.txt''])]"
  by (simp add: sample_defs detect_post_def closure_of_def detect_on_close_def closed_def emit_def
                Let_def exited_def)

section \<open>The webcam session\<close>

text \<open>
  C7. A start request that arrives while the process handle is set is answered with
  status 400 and the body \<^verbatim>\<open>{error: "Webcam detection is already running."}\<close>, and that
  answer on the new request's own response is all that happens: the handle, the process
  table, the live processes and both module variables stay as they were, no process is
  spawned or signalled, and nothing is written to the response of the open stream.
\<close>

theorem webcam_start_while_running_rejected:
  assumes "pythonProcess w = Some p"
  shows "step e w (GetWebcam r (Some ''start'') probe) =
           w\<lparr>effects := effects w @
                [Respond r 400 (JObject [(''error'', JString ''Webcam detection is already running.'')])]\<rparr>"
  using assms by (simp add: webcam_get_def webcam_start_def emit_def error_body_def)

theorem webcam_start_while_running_rejected_witness:
  "pythonProcess webcam_running = Some 0 \<and>
   step sample_env webcam_running (GetWebcam 1 (Some ''start'') DirCreated) =
     webcam_running\<lparr>effects := effects webcam_running @
       [Respond 1 400 (JObject [(''error'', JString ''Webcam detection is already running.'')])]\<rparr>"
proof -
  have h: "pythonProcess webcam_running = Some 0"
    by (simp add: webcam_running_def sample_defs webcam_get_def webcam_start_def)
  show ?thesis
    using h webcam_start_while_running_rejected [OF h, of sample_env 1 DirCreated] by simp
qed

text \<open>
  C8. A stop request succeeds exactly when the process handle is set. With a handle set
  the handler sends \<^verbatim>\<open>SIGTERM\<close> to that process, clears the handle and answers 200
  \<^verbatim>\<open>{message: "Webcam detection stopped."}\<close>; with no handle it answers 400
  \<^verbatim>\<open>{error: "No webcam detection process is running."}\<close> and sends no signal. Either way
  the handle is null afterwards, so a start request that follows (its output directory
  being there) is accepted: it spawns a new process and opens the stream.
\<close>

theorem webcam_stop_iff_running:
  "new_effects w (step e w (GetWebcam r (Some ''stop'') probe)) =
     (case pythonProcess w of
        Some p \<Rightarrow> [Kill p ''SIGTERM'', ConsoleLog [JString ''Webcam detection stopped.''],
                   Respond r 200 (JObject [(''message'', JString ''Webcam detection stopped.'')])]
      | None \<Rightarrow> [Respond r 400 (JObject [(''error'', JString ''No webcam detection process is running.'')])])
   \<and> pythonProcess (step e w (GetWebcam r (Some ''stop'') probe)) = None
   \<and> children (step e w (GetWebcam r (Some ''stop'') probe)) = children w
   \<and> live (step e w (GetWebcam r (Some ''stop'') probe)) = live w
   \<and> image_path (step e w (GetWebcam r (Some ''stop'') probe)) = image_path w
   \<and> pythonProcess (step e (step e w (GetWebcam r (Some ''stop'') probe))
                        (GetWebcam r' (Some ''start'') DirExists))
       = Some (length (children w))
   \<and> new_effects (step e w (GetWebcam r (Some ''stop'') probe))
        (step e (step e w (GetWebcam r (Some ''stop'') probe)) (GetWebcam r' (Some ''start'') DirExists))
       = [Spawn (length (children w)) ''python3'' (webcam_args e),
          SetHeader r' ''Content-Type'' ''multipart/x-mixed-replace; boundary=frame'',
          ConsoleLog [JString ''Webcam detection started...'']]"
  by (cases "pythonProcess w")
     (simp_all add: webcam_get_def webcam_stop_def webcam_start_def new_effects_def Let_def
                    error_body_def)

text \<open>
  C1, as stated, fails: the \<^verbatim>\<open>error\<close> handler (lines 91 to 94) sends the 500 response but
  never assigns \<open>pythonProcess\<close>. On the run "start, spawn error, start" the error event
  is one the process can deliver, the 500 response is sent, the handle still names the
  failed process, and the second start is rejected with 400.
\<close>

theorem webcam_spawn_error_keeps_handle:
  "enabled webcam_running (ErrorEv 0 ''spawn python3 ENOENT'') \<and>
   new_effects webcam_running spawn_failed =
     [ConsoleError [JString ''Python process error:'', JObject [(''message'', JString ''spawn python3 ENOENT'')]],
      Respond 0 500 (JObject [(''error'', JString ''Failed to start Python process''),
                              (''details'', JString ''spawn python3 ENOENT'')])] \<and>
   pythonProcess spawn_failed = Some 0 \<and>
   new_effects spawn_failed (step sample_env spawn_failed (start_request 1)) =
     [Respond 1 400 (JObject [(''error'', JString ''Webcam detection is already running.'')])]"
  by (simp add: spawn_failed_def webcam_running_eq closure_of_def webcam_on_error_def
                start_request_def webcam_get_def webcam_start_def err_obj_def
                error_details_body_def error_body_def)

text \<open>
  C1, amended. When the spawn of the webcam process fails, the \<^verbatim>\<open>error\<close> handler fails
  the open response with 500 \<^verbatim>\<open>{error: "Failed to start Python process", details: m}\<close>
  and does nothing else. The handle is cleared by the \<^verbatim>\<open>close\<close> handler, when the
  \<^verbatim>\<open>close\<close> event of that process is handled (Node emits it after the \<^verbatim>\<open>error\<close> event of a
  failed spawn), whatever was handled in between; a start request handled after that,
  its output directory being there, is no longer rejected: it spawns a new process.
\<close>

theorem webcam_spawn_error_then_close:
  assumes "closure_of w p = Some (WebcamProc r)"
  shows "step e w (ErrorEv p m) =
           w\<lparr>effects := effects w @
               [ConsoleError [JString ''Python process error:'', JObject [(''message'', JString m)]],
                Respond r 500 (JObject [(''error'', JString ''Failed to start Python process''),
                                        (''details'', JString m)])]\<rparr>
       \<and> pythonProcess (run e w (ErrorEv p m # es @ [CloseEv p code])) = None
       \<and> pythonProcess (run e w (ErrorEv p m # es @ [CloseEv p code, GetWebcam r' (Some ''start'') DirExists]))
           = Some (length (children (run e w (ErrorEv p m # es))))
       \<and> new_effects (run e w (ErrorEv p m # es @ [CloseEv p code]))
            (run e w (ErrorEv p m # es @ [CloseEv p code, GetWebcam r' (Some ''start'') DirExists]))
           = [Spawn (length (children (run e w (ErrorEv p m # es)))) ''python3'' (webcam_args e),
              SetHeader r' ''Content-Type'' ''multipart/x-mixed-replace; boundary=frame'',
              ConsoleLog [JString ''Webcam detection started...'']]"
proof -
  let ?W = "run e w (ErrorEv p m # es)"
  let ?C = "step e ?W (CloseEv p code)"
  have a: "step e w (ErrorEv p m) =
           w\<lparr>effects := effects w @
               [ConsoleError [JString ''Python process error:'', JObject [(''message'', JString m)]],
                Respond r 500 (JObject [(''error'', JString ''Failed to start Python process''),
                                        (''details'', JString m)])]\<rparr>"
    using assms by (simp add: webcam_on_error_def emit_def err_obj_def error_details_body_def)
  have cl: "closure_of ?W p = Some (WebcamProc r)"
    by (rule run_webcam_closure [OF assms])
  have r1: "run e w (ErrorEv p m # es @ [CloseEv p code]) = ?C"
    using run_append [of e w "ErrorEv p m # es" "[CloseEv p code]"] by simp
  have r2: "run e w (ErrorEv p m # es @ [CloseEv p code, GetWebcam r' (Some ''start'') DirExists]) =
              step e ?C (GetWebcam r' (Some ''start'') DirExists)"
    using run_append [of e w "ErrorEv p m # es" "[CloseEv p code, GetWebcam r' (Some ''start'') DirExists]"]
    by simp
  have idle: "pythonProcess ?C = None" and ch: "children ?C = children ?W"
    using webcam_close_clears [OF cl] by simp_all
  from a idle webcam_start_idle [OF idle, of e r'] show ?thesis
    unfolding r1 r2 ch by blast
qed

theorem webcam_spawn_error_then_close_witness:
  "closure_of webcam_running 0 = Some (WebcamProc 0) \<and>
   pythonProcess webcam_running = Some 0 \<and>
   step sample_env webcam_running (ErrorEv 0 ''spawn python3 ENOENT'') =
     webcam_running\<lparr>effects := effects webcam_running @
        [ConsoleError [JString ''Python process error:'',
                       JObject [(''message'', JString ''spawn python3 ENOENT'')]],
         Respond 0 500 (JObject [(''error'', JString ''Failed to start Python process''),
                                 (''details'', JString ''spawn python3 ENOENT'')])]\<rparr> \<and>
   pythonProcess (run sample_env webcam_running
                    [ErrorEv 0 ''spawn python3 ENOENT'', CloseEv 0 (Some (- 2))]) = None \<and>
   pythonProcess (run sample_env webcam_running
                    [ErrorEv 0 ''spawn python3 ENOENT'', CloseEv 0 (Some (- 2)),
                     GetWebcam 1 (Some ''start'') DirExists]) = Some 1"
proof -
  have h: "closure_of webcam_running 0 = Some (WebcamProc 0)"
    by (simp add: webcam_running_eq closure_of_def)
  have len: "length (children (run sample_env webcam_running [ErrorEv 0 ''spawn python3 ENOENT''])) = 1"
    by (simp add: webcam_running_eq closure_of_def webcam_on_error_def)
  have hd: "pythonProcess webcam_running = Some 0"
    by (simp add: webcam_running_eq)
  note t = webcam_spawn_error_then_close [OF h, of sample_env "''spawn python3 ENOENT''" "[]"
             "Some (- 2)" 1, unfolded append_Nil len]
  from h hd t show ?thesis
    by blast
qed

text \<open>
  C4. The claim: in every reachable state at most one webcam detector process is active.
  The stop branch clears the handle as soon as the signal is sent, and the \<^verbatim>\<open>close\<close>
  handler of every webcam process resets the one global handle, whichever process it
  names at that time. Evaluated on the run "start, stop, start, close event of the first
  process, start", each event of which can arrive in that order: after the first three
  requests process 0, signalled but not yet closed, and process 1 are live together; at
  the end processes 1 and 2 are both live, the handle names process 2, and the only
  signal ever sent went to process 0, so that process 1 runs on with no handle left to
  stop it.
\<close>

theorem webcam_two_live_processes:
  "feasible sample_env init restart_race \<and>
   live (run sample_env init (take 3 restart_race)) = [0, 1] \<and>
   live (run sample_env init restart_race) = [1, 2] \<and>
   pythonProcess (run sample_env init restart_race) = Some 2 \<and>
   filter is_kill (effects (run sample_env init restart_race)) = [Kill 0 ''SIGTERM'']"
proof -
  have "feasible sample_env init restart_race"
    by (simp add: restart_race_def init_def start_request_def stop_request_def webcam_get_def
                webcam_start_def webcam_stop_def closure_of_def webcam_on_close_def closed_def
                emit_def exited_def)
  moreover have "live (run sample_env init (take 3 restart_race)) = [0, 1]"
    by (simp add: restart_race_def init_def start_request_def stop_request_def webcam_get_def
                webcam_start_def webcam_stop_def)
  ultimately show ?thesis
    by (simp add: restart_race_run)
qed

section \<open>Detection jobs\<close>




text \<open>
  C9. When the process of a detection job reaches its \<^verbatim>\<open>close\<close> event, whatever the exit
  code, the first thing the handler does is to ask for the deletion of the uploaded file,
  before it looks at the code. The outcome of the deletion arrives in a callback of its
  own, which does nothing on success and writes one line to the error console on
  failure; it touches no response and no state. Every handler that runs afterwards
  therefore does exactly what it would have done had the callback not run: the callback
  changes neither status nor body of the response and the response never waits for it.
\<close>

theorem detect_unlink_best_effort:
  assumes "closure_of w p = Some (DetectProc r j)"
  shows "let W = step e w (CloseEv p code);
             logged = (case err of
                         None \<Rightarrow> []
                       | Some m \<Rightarrow> [ConsoleError [JString ''Failed to delete uploaded file:'',
                                                   JObject [(''message'', JString m)]]])
         in take 1 (new_effects w W) = [Unlink p (imagePath j)]
          \<and> step e W (UnlinkDone p err) = W\<lparr>effects := effects W @ logged\<rparr>
          \<and> step e (step e W (UnlinkDone p err)) ev =
              (step e W ev)\<lparr>effects := effects W @ logged @ new_effects W (step e W ev)\<rparr>"
proof -
  let ?W = "step e w (CloseEv p code)"
  let ?logged = "case err of
                   None \<Rightarrow> []
                 | Some m \<Rightarrow> [ConsoleError [JString ''Failed to delete uploaded file:'',
                                             JObject [(''message'', JString m)]]]"
  have a: "take 1 (new_effects w ?W) = [Unlink p (imagePath j)]"
    using assms by (simp add: detect_on_close_def new_effects_def)
  have b: "step e ?W (UnlinkDone p err) = ?W\<lparr>effects := effects ?W @ ?logged\<rparr>"
    by (rule unlink_done_only_logs [OF step_closure [OF assms]])
  have fr: "list_ex (sends_headers q) (effects ?W @ ?logged) = list_ex (sends_headers q) (effects ?W)"
    for q by (cases err) simp_all
  have c: "step e (step e ?W (UnlinkDone p err)) ev =
             (step e ?W ev)\<lparr>effects := effects ?W @ ?logged @ new_effects ?W (step e ?W ev)\<rparr>"
    unfolding b using step_effects_frame [OF fr, of e ev] by simp
  from a b c show ?thesis
    unfolding Let_def by blast
qed

theorem detect_unlink_best_effort_witness:
  "closure_of one_job 0 = Some (DetectProc 0 job_a) \<and>
   take 1 (new_effects one_job one_job_closed) = [Unlink 0 (imagePath job_a)] \<and>
   step sample_env one_job_closed (UnlinkDone 0 (Some ''EPERM'')) =
     one_job_closed\<lparr>effects := effects one_job_closed @
       [ConsoleError [JString ''Failed to delete uploaded file:'', JObject [(''message'', JString ''EPERM'')]]]\<rparr> \<and>
   step sample_env (step sample_env one_job_closed (UnlinkDone 0 (Some ''EPERM'')))
       (ReaddirDone 0 (Inr [''street.jpg''])) =
     (step sample_env one_job_closed (ReaddirDone 0 (Inr [''street.jpg''])))
       \<lparr>effects := effects one_job_closed @
          [ConsoleError [JString ''Failed to delete uploaded file:'', JObject [(''message'', JString ''EPERM'')]]] @
          new_effects one_job_closed (step sample_env one_job_closed (ReaddirDone 0 (Inr [''street.jpg''])))\<rparr>"
proof -
  have h: "closure_of one_job 0 = Some (DetectProc 0 job_a)"
    by (rule one_job_closure)
  note t = detect_unlink_best_effort [OF h, of sample_env "Some 0" "Some ''EPERM''"
             "ReaddirDone 0 (Inr [''street.jpg''])", unfolded Let_def option.case,
             folded one_job_closed_def]
  from h t show ?thesis
    by blast
qed

text \<open>
  C3, as stated, fails for \<open>k = 0\<close>: on a run that can happen, the detector exits with
  code 0, the listing holds no file with a recognised extension, and the answer is the
  500 of line 186, not a 200 with an empty list.
\<close>

theorem detect_zero_images_not_success:
  "feasible sample_env init
     [PostDetect 0 sample_request uid_a DirCreated, CloseEv 0 (Some 0),
      ReaddirDone 0 (Inr [''labels.txt''])] \<and>
   length (imageFiles [''labels.txt'']) = 0 \<and>
   new_effects one_job_closed (step sample_env one_job_closed (ReaddirDone 0 (Inr [''labels.txt'']))) =
     [ConsoleError [JString ''No images found in result folder''],
      Respond 0 500 (JObject [(''error'', JString ''No images generated'')])] \<and>
   Respond 0 200 (JObject [(''status'', JNumber 200), (''image'', JArray [])])
     \<notin> set (effects (step sample_env one_job_closed (ReaddirDone 0 (Inr [''labels.txt'']))))"
proof -
  have "effects (step sample_env one_job_closed (ReaddirDone 0 (Inr [''labels.txt'']))) =
          effects one_job_closed @
          [ConsoleError [JString ''No images found in result folder''],
           Respond 0 500 (JObject [(''error'', JString ''No images generated'')])]"
    by (simp add: one_job_closed_closure readdir_empty sample_listing)
  moreover have "Respond 0 200 (JObject [(''status'', JNumber 200), (''image'', JArray [])])
                   \<notin> set (effects one_job_closed)"
    by (simp add: one_job_closed_def one_job_def sample_defs detect_post_def closure_of_def
                  detect_on_close_def closed_def emit_def Let_def)
  ultimately show ?thesis
    using one_job_feasible by (simp add: sample_listing)
qed

text \<open>
  C3, amended. Let the detector of a job exit with code 0: the close handler asks for the
  listing of the result folder. Whatever is handled in between, if the listing holds
  \<open>k \<ge> 1\<close> files with a recognised extension, the callback answers 200 with
  \<^verbatim>\<open>{status: 200, image: [...]}\<close>, where the image list has one URL
  \<^verbatim>\<open>http://localhost:3002/output/{job id}/results/{file}\<close> per surviving file, \<open>k\<close> in
  all, in the order of the listing.
\<close>

theorem detect_success_urls:
  assumes "closure_of w p = Some (DetectProc r j)"
    and "imageFiles files \<noteq> []"
  shows "new_effects w (step e w (CloseEv p (Some 0))) =
           [Unlink p (imagePath j), ConsoleLog [finished_msg (Some 0)],
            Readdir p (path_join e [outputFolder j, ''results''])]
       \<and> new_effects (run e w (CloseEv p (Some 0) # es))
            (step e (run e w (CloseEv p (Some 0) # es)) (ReaddirDone p (Inr files))) =
           [ConsoleLog [JString ''Generated image URLs:'',
              JArray (map (\<lambda>f. JString (''http://localhost:3002/output/'' @ uniqueId j @ ''/results/'' @ f))
                          (filter is_image files))],
            Respond r 200 (JObject [(''status'', JNumber 200),
              (''image'',
               JArray (map (\<lambda>f. JString (''http://localhost:3002/output/'' @ uniqueId j @ ''/results/'' @ f))
                           (filter is_image files)))])]
       \<and> length (map (\<lambda>f. JString (''http://localhost:3002/output/'' @ uniqueId j @ ''/results/'' @ f))
                     (filter is_image files)) = length (filter is_image files)"
proof -
  let ?W = "run e w (CloseEv p (Some 0) # es)"
  let ?j = "j\<lparr>errorMessage := errorMessage j @ concat (stderr_chunks e p (CloseEv p (Some 0) # es)),
               resultMessage := resultMessage j @ concat (stdout_chunks e p (CloseEv p (Some 0) # es))\<rparr>"
  have cl: "closure_of ?W p = Some (DetectProc r ?j)"
    by (rule run_closure [OF assms(1)])
  have "step e ?W (ReaddirDone p (Inr files)) = detect_on_readdir r ?j (Inr files) ?W"
    by (rule readdir_step [OF cl])
  with readdir_success [OF assms(2), of r ?j ?W] close_zero [OF assms(1), of e]
  show ?thesis
    by (simp add: imageUrls_def imageFiles_def comp_def)
qed

theorem detect_success_urls_witness:
  "closure_of one_job 0 = Some (DetectProc 0 job_a) \<and>
   imageFiles [''street.jpg'', ''labels'', ''crops.PNG'', ''.bmp''] \<noteq> [] \<and>
   new_effects (run sample_env one_job [CloseEv 0 (Some 0), UnlinkDone 0 None])
     (step sample_env (run sample_env one_job [CloseEv 0 (Some 0), UnlinkDone 0 None])
        (ReaddirDone 0 (Inr [''street.jpg'', ''labels'', ''crops.PNG'', ''.bmp''])))
     = [ConsoleLog [JString ''Generated image URLs:'',
          JArray [JString ''http://localhost:3002/output/00112233445566778899aabbccddeeff/results/street.jpg'',
                  JString ''http://localhost:3002/output/00112233445566778899aabbccddeeff/results/crops.PNG'']],
        Respond 0 200 (JObject [(''status'', JNumber 200),
          (''image'',
           JArray [JString ''http://localhost:3002/output/00112233445566778899aabbccddeeff/results/street.jpg'',
                   JString ''http://localhost:3002/output/00112233445566778899aabbccddeeff/results/crops.PNG''])])]"
proof -
  have h1: "closure_of one_job 0 = Some (DetectProc 0 job_a)"
    by (rule one_job_closure)
  have h2: "imageFiles [''street.jpg'', ''labels'', ''crops.PNG'', ''.bmp''] \<noteq> []"
    by (simp add: sample_listing)
  have c: "new_effects (run sample_env one_job [CloseEv 0 (Some 0), UnlinkDone 0 None])
     (step sample_env (run sample_env one_job [CloseEv 0 (Some 0), UnlinkDone 0 None])
        (ReaddirDone 0 (Inr [''street.jpg'', ''labels'', ''crops.PNG'', ''.bmp''])))
     = [ConsoleLog [JString ''Generated image URLs:'',
          JArray (map (\<lambda>f. JString (''http://localhost:3002/output/'' @ uniqueId job_a @ ''/results/'' @ f))
                      (filter is_image [''street.jpg'', ''labels'', ''crops.PNG'', ''.bmp'']))],
        Respond 0 200 (JObject [(''status'', JNumber 200),
          (''image'',
           JArray (map (\<lambda>f. JString (''http://localhost:3002/output/'' @ uniqueId job_a @ ''/results/'' @ f))
                      (filter is_image [''street.jpg'', ''labels'', ''crops.PNG'', ''.bmp''])))])]"
    using detect_success_urls [OF h1 h2, of sample_env "[UnlinkDone 0 None]"] by blast
  show ?thesis
    using h1 h2 c unfolding sample_filter by (simp add: job_a_def uid_a_def)
qed

text \<open>
  C6. The filter keeps exactly the entries whose extension (\<^verbatim>\<open>path.extname\<close>), lower-cased,
  is one of \<^verbatim>\<open>.jpg\<close>, \<^verbatim>\<open>.jpeg\<close>, \<^verbatim>\<open>.png\<close>, \<^verbatim>\<open>.bmp\<close>: an entry of a listing, which
  contains no slash, is kept if and only if it is a non-empty stem followed by one of the
  four extensions in any mix of upper and lower case. A listing of which no entry
  survives makes the job answer 500 with \<^verbatim>\<open>{error: "No images generated"}\<close>.
\<close>

theorem detect_filter_and_no_images:
  assumes "closure_of w p = Some (DetectProc r j)"
    and "imageFiles files = []"
    and "CHR ''/'' \<notin> set f"
  shows "imageFiles fs =
           filter (\<lambda>f. toLowerCase (extname f) \<in> {''.jpg'', ''.jpeg'', ''.png'', ''.bmp''}) fs
       \<and> (f \<in> set (imageFiles (pre @ f # post)) \<longleftrightarrow>
            (\<exists>stem ext. f = stem @ ext \<and> stem \<noteq> [] \<and>
               toLowerCase ext \<in> {''.jpg'', ''.jpeg'', ''.png'', ''.bmp''}))
       \<and> new_effects w (step e w (ReaddirDone p (Inr files))) =
           [ConsoleError [JString ''No images found in result folder''],
            Respond r 500 (JObject [(''error'', JString ''No images generated'')])]"
proof -
  have "imageFiles fs =
          filter (\<lambda>f. toLowerCase (extname f) \<in> {''.jpg'', ''.jpeg'', ''.png'', ''.bmp''}) fs"
    by (simp add: imageFiles_def is_image_def [abs_def] image_exts_def)
  moreover have "f \<in> set (imageFiles (pre @ f # post)) \<longleftrightarrow> is_image f"
    by (auto simp: imageFiles_def)
  moreover have "is_image f \<longleftrightarrow>
            (\<exists>stem ext. f = stem @ ext \<and> stem \<noteq> [] \<and>
               toLowerCase ext \<in> {''.jpg'', ''.jpeg'', ''.png'', ''.bmp''})"
    using is_image_iff [OF assms(3)] by (simp add: image_exts_def)
  moreover have "new_effects w (step e w (ReaddirDone p (Inr files))) =
           [ConsoleError [JString ''No images found in result folder''],
            Respond r 500 (JObject [(''error'', JString ''No images generated'')])]"
    using assms(1) readdir_empty [OF assms(2), of r j w] by simp
  ultimately show ?thesis by blast
qed

theorem detect_filter_and_no_images_witness:
  "closure_of one_job_closed 0 = Some (DetectProc 0 job_a) \<and>
   imageFiles [''labels.txt''] = [] \<and>
   CHR ''/'' \<notin> set ''crops.PNG'' \<and>
   imageFiles [''street.jpg'', ''labels'', ''crops.PNG'', ''.bmp''] = [''street.jpg'', ''crops.PNG''] \<and>
   ''crops.PNG'' \<in> set (imageFiles [''street.jpg'', ''labels'', ''crops.PNG'', ''.bmp'']) \<and>
   new_effects one_job_closed (step sample_env one_job_closed (ReaddirDone 0 (Inr [''labels.txt'']))) =
     [ConsoleError [JString ''No images found in result folder''],
      Respond 0 500 (JObject [(''error'', JString ''No images generated'')])]"
proof -
  have h1: "closure_of one_job_closed 0 = Some (DetectProc 0 job_a)"
    by (rule one_job_closed_closure)
  have h2: "imageFiles [''labels.txt''] = []"
    by (simp add: sample_listing)
  have h3: "CHR ''/'' \<notin> set ''crops.PNG''"
    by simp
  from detect_filter_and_no_images [OF h1 h2 h3, where e = sample_env]
  have "new_effects one_job_closed (step sample_env one_job_closed (ReaddirDone 0 (Inr [''labels.txt'']))) =
     [ConsoleError [JString ''No images found in result folder''],
      Respond 0 500 (JObject [(''error'', JString ''No images generated'')])]"
    by blast
  with h1 h2 h3 show ?thesis
    by (simp add: sample_listing)
qed

text \<open>
  C10. Every URL of a successful answer begins with \<^verbatim>\<open>http://localhost:3002/output/\<close>,
  and the host the client addressed plays no part: the request handler does the same for
  every value of it, and the later callbacks do not see the request at all.
\<close>

theorem detect_urls_absolute:
  assumes "closure_of w p = Some (DetectProc r j)"
    and "imageFiles files \<noteq> []"
  shows "(\<exists>urls. new_effects w (step e w (ReaddirDone p (Inr files))) =
            [ConsoleLog [JString ''Generated image URLs:'', JArray (map JString urls)],
             Respond r 200 (JObject [(''status'', JNumber 200), (''image'', JArray (map JString urls))])]
          \<and> urls \<noteq> []
          \<and> (\<forall>u \<in> set urls. prefix ''http://localhost:3002/output/'' u))
       \<and> step e w0 (PostDetect r0 (req\<lparr>host := h\<rparr>) uid probe) = step e w0 (PostDetect r0 req uid probe)"
proof -
  have "\<forall>u \<in> set (imageUrls (uniqueId j) (imageFiles files)). prefix ''http://localhost:3002/output/'' u"
    by (auto simp: imageUrls_def)
  moreover have "imageUrls (uniqueId j) (imageFiles files) \<noteq> []"
    using assms(2) by (simp add: imageUrls_def)
  moreover have "new_effects w (step e w (ReaddirDone p (Inr files))) =
            [ConsoleLog [JString ''Generated image URLs:'',
                         JArray (map JString (imageUrls (uniqueId j) (imageFiles files)))],
             Respond r 200 (JObject [(''status'', JNumber 200),
                (''image'', JArray (map JString (imageUrls (uniqueId j) (imageFiles files))))])]"
    using assms(1) readdir_success [OF assms(2), of r j w] by simp
  moreover have "step e w0 (PostDetect r0 (req\<lparr>host := h\<rparr>) uid probe) = step e w0 (PostDetect r0 req uid probe)"
    by (simp add: detect_post_def)
  ultimately show ?thesis by blast
qed

theorem detect_urls_absolute_witness:
  "closure_of one_job_closed 0 = Some (DetectProc 0 job_a) \<and>
   imageFiles [''street.jpg''] \<noteq> [] \<and>
   new_effects one_job_closed (step sample_env one_job_closed (ReaddirDone 0 (Inr [''street.jpg'']))) =
     [ConsoleLog [JString ''Generated image URLs:'',
        JArray [JString ''http://localhost:3002/output/00112233445566778899aabbccddeeff/results/street.jpg'']],
      Respond 0 200 (JObject [(''status'', JNumber 200),
        (''image'',
         JArray [JString ''http://localhost:3002/output/00112233445566778899aabbccddeeff/results/street.jpg''])])] \<and>
   prefix ''http://localhost:3002/output/''
     ''http://localhost:3002/output/00112233445566778899aabbccddeeff/results/street.jpg'' \<and>
   step sample_env init (PostDetect 0 (sample_request\<lparr>host := ''detector.example.org''\<rparr>) uid_a DirCreated)
     = step sample_env init (PostDetect 0 sample_request uid_a DirCreated)"
proof -
  have h1: "closure_of one_job_closed 0 = Some (DetectProc 0 job_a)"
    by (rule one_job_closed_closure)
  have h2: "imageFiles [''street.jpg''] \<noteq> []"
    by (simp add: sample_listing)
  show ?thesis
    using h1 h2
      detect_urls_absolute [OF h1 h2, where e = sample_env and ?w0.0 = init and ?r0.0 = 0
        and req = sample_request and h = "''detector.example.org''" and uid = uid_a and probe = DirCreated]
    by (simp add: readdir_success sample_listing imageUrls_def job_a_def uid_a_def)
qed




end
